theory Spec2Isabelle
  imports Complex_Main "HOL-Library.AList" "HOL-Library.Multiset" "HOL-Library.Sublist"
begin

section \<open>Pipeline validation script: data model\<close>

text \<open>
  The development embeds \<^verbatim>\<open>scripts/validate-pipelines.py\<close>. Python dictionaries with a
  fixed key set are records, dictionaries read from YAML or JSON are association lists in
  insertion order, an optional key is an \<open>option\<close>, Python integers are \<open>int\<close>, and the
  readings of \<^verbatim>\<open>time.time()\<close> are reals. An exception that leaves a function is the
  \<open>Inl\<close> branch of its result. Console output is not modelled.
\<close>

datatype exn =
    TypeError string
  | OSError string
  | UnicodeDecodeError string
  | YAMLError string

text \<open>A parsed JSON document, as \<^verbatim>\<open>json.load\<close> returns it. \<open>JObj\<close> holds the items of the
  resulting dict in insertion order.\<close>

datatype json =
    JNull
  | JBool bool
  | JInt int
  | JFloat real
  | JStr string
  | JArr "json list"
  | JObj "(string \<times> json) list"

text \<open>\<^verbatim>\<open>type(data).__name__\<close>\<close>

fun type_name :: "json \<Rightarrow> string" where
  "type_name JNull = ''NoneType''"
| "type_name (JBool b) = ''bool''"
| "type_name (JInt i) = ''int''"
| "type_name (JFloat x) = ''float''"
| "type_name (JStr s) = ''str''"
| "type_name (JArr xs) = ''list''"
| "type_name (JObj kvs) = ''dict''"

text \<open>Python's \<^verbatim>\<open>a in b\<close> on two strings: \<open>a\<close> occurs in \<open>b\<close> as a contiguous run.\<close>

fun str_contains :: "string \<Rightarrow> string \<Rightarrow> bool" where
  "str_contains [] a = (a = [])"
| "str_contains (c # cs) a = (prefix a (c # cs) \<or> str_contains cs a)"

text \<open>
  Python's \<^verbatim>\<open>field in data\<close> for a string \<open>field\<close> and a parsed JSON value: key membership
  on a dict, element equality on a list, substring search on a string, and
  \<^verbatim>\<open>TypeError\<close> on \<^verbatim>\<open>None\<close>, a bool or a number (carried here with the type name).
\<close>

fun py_in :: "string \<Rightarrow> json \<Rightarrow> exn + bool" where
  "py_in field (JObj kvs) = Inr (field \<in> set (map fst kvs))"
| "py_in field (JArr xs) = Inr (JStr field \<in> set xs)"
| "py_in field (JStr s) = Inr (str_contains s field)"
| "py_in field data = Inl (TypeError (type_name data))"

text \<open>One entry of the \<^verbatim>\<open>tests\<close> mapping of the configuration document.\<close>

record case_spec =
  pipeline :: string
  working_dir :: "string option"
  expected_outputs :: "string list option"
  json_validations :: "(string \<times> string list) list option"

text \<open>The configuration document: \<^verbatim>\<open>setup\<close> and \<^verbatim>\<open>tests\<close> are both optional keys.\<close>

record suite_config =
  cfg_setup :: "string list option"
  cfg_tests :: "(string \<times> case_spec) list option"

text \<open>What \<^verbatim>\<open>open\<close> followed by \<^verbatim>\<open>json.load\<close> does on an existing path.\<close>

datatype load_result =
    Loaded json
  | JSONDecodeError string
  | LoadRaised exn

text \<open>The part of the file system the script reads.\<close>

record filesystem =
  path_exists :: "string \<Rightarrow> bool"
  json_load :: "string \<Rightarrow> load_result"
  yaml_load :: "string \<Rightarrow> exn + suite_config"

text \<open>How \<^verbatim>\<open>subprocess.run\<close> ends.\<close>

datatype proc_event =
    Completed int string string
  | TimeoutExpired
  | Raised string

text \<open>
  The collaborators outside the script: \<open>path_join\<close> is \<^verbatim>\<open>Path(working_dir) / output_path\<close>,
  \<open>subprocess_run\<close> takes the command, the working directory, the timeout and the file system
  and gives the event, the time elapsed since \<^verbatim>\<open>start_time\<close> and the file system the child
  leaves behind, \<open>os_system\<close> is one setup command, \<open>time_now\<close> the clock read by the report.
\<close>

record externals =
  path_join :: "string \<Rightarrow> string \<Rightarrow> string"
  subprocess_run :: "string list \<Rightarrow> string \<Rightarrow> real \<Rightarrow> filesystem \<Rightarrow> proc_event \<times> real \<times> filesystem"
  os_system :: "string \<Rightarrow> filesystem \<Rightarrow> filesystem"
  time_now :: real

record execution_result =
  success :: bool
  stdout :: string
  stderr :: string
  duration :: real
  exit_code :: int

record output_validation =
  files_created :: "string list"
  files_missing :: "string list"
  total_expected :: int
  ov_success :: bool
  created_count :: int
  missing_count :: int

text \<open>The two shapes of dict \<^verbatim>\<open>validate_json_output\<close> returns.\<close>

datatype json_validation =
    JsonFailure string
  | JsonChecked bool "string list" "string list" string

fun jv_success :: "json_validation \<Rightarrow> bool" where
  "jv_success (JsonFailure msg) = False"
| "jv_success (JsonChecked ok missing keys ty) = ok"

text \<open>\<^verbatim>\<open>.get('error')\<close> and \<^verbatim>\<open>.get('missing_fields')\<close> on the returned dict.\<close>

fun get_error :: "json_validation \<Rightarrow> string option" where
  "get_error (JsonFailure msg) = Some msg"
| "get_error (JsonChecked ok missing keys ty) = None"

fun get_missing_fields :: "json_validation \<Rightarrow> string list option" where
  "get_missing_fields (JsonFailure msg) = None"
| "get_missing_fields (JsonChecked ok missing keys ty) = Some missing"

record case_result =
  cr_name :: string
  cr_pipeline :: string
  cr_execution :: execution_result
  cr_output_validation :: "output_validation option"
  cr_json_validations :: "(string \<times> json_validation) list option"

record pipeline_validator =
  cli_path :: string
  test_results :: "case_result list"

record report_summary =
  total_count :: int
  passed :: int
  failed :: int

record report =
  timestamp :: real
  rp_cli_path :: string
  results :: "case_result list"
  summary :: report_summary

section \<open>Operations of \<^verbatim>\<open>PipelineValidator\<close>\<close>

text \<open>\<^verbatim>\<open>__init__\<close>: the result list starts empty.\<close>

definition init :: "string \<Rightarrow> pipeline_validator" where
  "init teambeam_cli = \<lparr>cli_path = teambeam_cli, test_results = []\<rparr>"

text \<open>
  \<^verbatim>\<open>run_pipeline\<close>: the three ways \<^verbatim>\<open>subprocess.run\<close> can end are the normal return and
  the two \<^verbatim>\<open>except\<close> clauses. The timeout handed to \<^verbatim>\<open>subprocess.run\<close> is the literal 60.
\<close>

definition run_pipeline ::
  "externals \<Rightarrow> pipeline_validator \<Rightarrow> string \<Rightarrow> string \<Rightarrow> filesystem
     \<Rightarrow> execution_result \<times> filesystem" where
  "run_pipeline ext self pipeline_path wd fs =
     (case subprocess_run ext [''node'', cli_path self, ''run'', pipeline_path] wd 60 fs of
        (Completed returncode out err, elapsed, fs') \<Rightarrow>
          (\<lparr>success = (returncode = 0), stdout = out, stderr = err,
            duration = elapsed, exit_code = returncode\<rparr>, fs')
      | (TimeoutExpired, elapsed, fs') \<Rightarrow>
          (\<lparr>success = False, stdout = [],
            stderr = ''Pipeline execution timed out after 60 seconds'',
            duration = 60, exit_code = - 1\<rparr>, fs')
      | (Raised e, elapsed, fs') \<Rightarrow>
          (\<lparr>success = False, stdout = [], stderr = e,
            duration = elapsed, exit_code = - 1\<rparr>, fs'))"

text \<open>\<^verbatim>\<open>validate_outputs\<close>: the loop appends each path to one of the two lists.\<close>

fun validate_outputs_loop ::
  "externals \<Rightarrow> filesystem \<Rightarrow> string \<Rightarrow> string list \<Rightarrow> string list \<Rightarrow> string list
     \<Rightarrow> string list \<times> string list" where
  "validate_outputs_loop ext fs wd [] created missing = (created, missing)"
| "validate_outputs_loop ext fs wd (output_path # rest) created missing =
     (if path_exists fs (path_join ext wd output_path)
      then validate_outputs_loop ext fs wd rest (created @ [output_path]) missing
      else validate_outputs_loop ext fs wd rest created (missing @ [output_path]))"

definition validate_outputs ::
  "externals \<Rightarrow> filesystem \<Rightarrow> string list \<Rightarrow> string \<Rightarrow> output_validation" where
  "validate_outputs ext fs expected wd =
     (case validate_outputs_loop ext fs wd expected [] [] of
        (created, missing) \<Rightarrow>
          \<lparr>files_created = created, files_missing = missing,
           total_expected = int (length expected),
           ov_success = (int (length missing) = 0),
           created_count = int (length created),
           missing_count = int (length missing)\<rparr>)"

text \<open>\<^verbatim>\<open>validate_json_output\<close>: the loop over the required fields stops at the first
  \<^verbatim>\<open>TypeError\<close> of the membership test.\<close>

fun missing_fields_loop :: "json \<Rightarrow> string list \<Rightarrow> string list \<Rightarrow> exn + string list" where
  "missing_fields_loop data [] missing = Inr missing"
| "missing_fields_loop data (field # rest) missing =
     (case py_in field data of
        Inl e \<Rightarrow> Inl e
      | Inr found \<Rightarrow>
          if \<not> found then missing_fields_loop data rest (missing @ [field])
          else missing_fields_loop data rest missing)"

text \<open>\<^verbatim>\<open>list(data.keys()) if isinstance(data, dict) else []\<close>\<close>

fun data_keys_of :: "json \<Rightarrow> string list" where
  "data_keys_of (JObj kvs) = map fst kvs"
| "data_keys_of data = []"

text \<open>Only \<^verbatim>\<open>json.JSONDecodeError\<close> is caught; anything else raised inside the
  \<^verbatim>\<open>try\<close> leaves the function.\<close>

definition validate_json_output ::
  "filesystem \<Rightarrow> string \<Rightarrow> string list \<Rightarrow> exn + json_validation" where
  "validate_json_output fs json_path required_fields =
     (if \<not> path_exists fs json_path
      then Inr (JsonFailure (''JSON file not found: '' @ json_path))
      else case json_load fs json_path of
          LoadRaised e \<Rightarrow> Inl e
        | JSONDecodeError detail \<Rightarrow> Inr (JsonFailure (''Invalid JSON: '' @ detail))
        | Loaded data \<Rightarrow>
            (case missing_fields_loop data required_fields [] of
               Inl e \<Rightarrow> Inl e
             | Inr missing \<Rightarrow>
                 Inr (JsonChecked (int (length missing) = 0) missing
                        (data_keys_of data) (type_name data))))"

text \<open>The loop of \<^verbatim>\<open>test_pipeline\<close> over \<^verbatim>\<open>config["json_validations"].items()\<close>; the
  assignment \<^verbatim>\<open>d[json_file] = json_validation\<close> is the update of an association list.\<close>

fun json_validations_loop ::
  "filesystem \<Rightarrow> (string \<times> string list) list \<Rightarrow> (string \<times> json_validation) list
     \<Rightarrow> exn + (string \<times> json_validation) list" where
  "json_validations_loop fs [] acc = Inr acc"
| "json_validations_loop fs ((json_file, required_fields) # rest) acc =
     (case validate_json_output fs json_file required_fields of
        Inl e \<Rightarrow> Inl e
      | Inr json_validation \<Rightarrow>
          json_validations_loop fs rest (AList.update json_file json_validation acc))"

text \<open>\<^verbatim>\<open>config.get("working_dir", ".")\<close>\<close>

definition get_working_dir :: "case_spec \<Rightarrow> string" where
  "get_working_dir config = (case working_dir config of None \<Rightarrow> ''.'' | Some d \<Rightarrow> d)"

definition test_pipeline ::
  "externals \<Rightarrow> pipeline_validator \<Rightarrow> string \<Rightarrow> case_spec \<Rightarrow> filesystem
     \<Rightarrow> exn + (case_result \<times> filesystem)" where
  "test_pipeline ext self pipeline_name config fs =
     (case run_pipeline ext self (pipeline config) (get_working_dir config) fs of
        (result, fs') \<Rightarrow>
          let test_result =
                \<lparr>cr_name = pipeline_name, cr_pipeline = pipeline config, cr_execution = result,
                 cr_output_validation = None, cr_json_validations = None\<rparr>
          in if success result then
               let test_result1 =
                     (case expected_outputs config of
                        None \<Rightarrow> test_result
                      | Some expected \<Rightarrow>
                          test_result\<lparr>cr_output_validation :=
                            Some (validate_outputs ext fs' expected (get_working_dir config))\<rparr>)
               in (case json_validations config of
                     None \<Rightarrow> Inr (test_result1, fs')
                   | Some checks \<Rightarrow>
                       (case json_validations_loop fs' checks [] of
                          Inl e \<Rightarrow> Inl e
                        | Inr d \<Rightarrow> Inr (test_result1\<lparr>cr_json_validations := Some d\<rparr>, fs')))
             else Inr (test_result, fs'))"

text \<open>The loop of \<^verbatim>\<open>run_test_suite\<close> that fills the local list \<^verbatim>\<open>all_results\<close>.\<close>

fun run_tests_loop ::
  "externals \<Rightarrow> pipeline_validator \<Rightarrow> (string \<times> case_spec) list \<Rightarrow> case_result list
     \<Rightarrow> filesystem \<Rightarrow> exn + (case_result list \<times> filesystem)" where
  "run_tests_loop ext self [] all_results fs = Inr (all_results, fs)"
| "run_tests_loop ext self ((test_name, test_config) # rest) all_results fs =
     (case test_pipeline ext self test_name test_config fs of
        Inl e \<Rightarrow> Inl e
      | Inr (result, fs') \<Rightarrow> run_tests_loop ext self rest (all_results @ [result]) fs')"

text \<open>\<^verbatim>\<open>sum(1 for r in rs if r["execution"]["success"])\<close>\<close>

definition count_passed :: "case_result list \<Rightarrow> int" where
  "count_passed rs = sum_list (map (\<lambda>r. 1) (filter (\<lambda>r. success (cr_execution r)) rs))"

text \<open>The summary step of \<^verbatim>\<open>run_test_suite\<close>: the three numbers it prints (total, passed,
  failed) and the boolean it returns.\<close>

definition generate_summary :: "case_result list \<Rightarrow> report_summary \<times> bool" where
  "generate_summary all_results =
     (let passed = count_passed all_results;
          total = int (length all_results)
      in (\<lparr>total_count = total, passed = passed, failed = total - passed\<rparr>,
          if passed = total then True else False))"

text \<open>The setup commands, each through \<^verbatim>\<open>os.system\<close>, whose status is discarded.\<close>

definition run_setup :: "externals \<Rightarrow> suite_config \<Rightarrow> filesystem \<Rightarrow> filesystem" where
  "run_setup ext config fs =
     (case cfg_setup config of
        None \<Rightarrow> fs
      | Some cmds \<Rightarrow> foldl (\<lambda>f cmd. os_system ext cmd f) fs cmds)"

text \<open>\<^verbatim>\<open>config.get("tests", {}).items()\<close>\<close>

definition get_tests :: "suite_config \<Rightarrow> (string \<times> case_spec) list" where
  "get_tests config = (case cfg_tests config of None \<Rightarrow> [] | Some ts \<Rightarrow> ts)"

text \<open>\<^verbatim>\<open>run_test_suite\<close> returns the boolean only; \<^verbatim>\<open>all_results\<close> is a local and
  \<^verbatim>\<open>self\<close> is not assigned to.\<close>

definition run_test_suite ::
  "externals \<Rightarrow> pipeline_validator \<Rightarrow> string \<Rightarrow> filesystem \<Rightarrow> exn + (bool \<times> filesystem)" where
  "run_test_suite ext self config_path fs =
     (if \<not> path_exists fs config_path then Inr (False, fs)
      else case yaml_load fs config_path of
          Inl e \<Rightarrow> Inl e
        | Inr config \<Rightarrow>
            (case run_tests_loop ext self (get_tests config) [] (run_setup ext config fs) of
               Inl e \<Rightarrow> Inl e
             | Inr (all_results, fs') \<Rightarrow> Inr (snd (generate_summary all_results), fs')))"

text \<open>\<^verbatim>\<open>generate_report\<close>: the path written and the document written there.\<close>

definition generate_report :: "externals \<Rightarrow> pipeline_validator \<Rightarrow> string \<Rightarrow> string \<times> report" where
  "generate_report ext self output_path =
     (output_path,
      \<lparr>timestamp = time_now ext,
       rp_cli_path = cli_path self,
       results = test_results self,
       summary =
         \<lparr>total_count = int (length (test_results self)),
          passed = sum_list (map (\<lambda>r. 1)
                     (filter (\<lambda>r. success (cr_execution r)) (test_results self))),
          failed = sum_list (map (\<lambda>r. 1)
                     (filter (\<lambda>r. \<not> success (cr_execution r)) (test_results self)))\<rparr>\<rparr>)"

text \<open>\<^verbatim>\<open>main\<close>: \<open>argv\<close> is \<^verbatim>\<open>sys.argv\<close>; the outcome is the file written by
  \<^verbatim>\<open>generate_report\<close> and the status handed to \<^verbatim>\<open>sys.exit\<close>.\<close>

record main_outcome =
  written :: "string \<times> report"
  exit_status :: int

definition main :: "externals \<Rightarrow> string list \<Rightarrow> filesystem \<Rightarrow> exn + main_outcome" where
  "main ext argv fs =
     (let config_file = (if length argv > 1 then argv ! 1 else ''test-config.yaml'');
          validator = init ''./cli/dist/index.js''
      in case run_test_suite ext validator config_file fs of
           Inl e \<Rightarrow> Inl e
         | Inr (ok, fs') \<Rightarrow>
             Inr \<lparr>written = generate_report ext validator ''test-results.json'',
                  exit_status = (if ok then 0 else 1)\<rparr>)"

section \<open>Concrete suites\<close>

text \<open>
  A small world on which the operations are evaluated. \<open>demo_config\<close> is the end-to-end
  suite of two cases declared in the order \<open>b\<close>, \<open>a\<close>: \<open>b\<close> exits with status 0 and its
  expected file exists, \<open>a\<close> exits with status 1. \<open>json_config\<close> has a first case without
  checks and a second case whose JSON artifact holds the number 5.
\<close>

definition demo_config :: suite_config where
  "demo_config =
     \<lparr>cfg_setup = Some [''mkdir -p out''],
      cfg_tests = Some
        [(''b'', \<lparr>pipeline = ''ok.yaml'', working_dir = None,
                  expected_outputs = Some [''a.pdf''], json_validations = None\<rparr>),
         (''a'', \<lparr>pipeline = ''fail.yaml'', working_dir = Some ''work'',
                  expected_outputs = Some [''b.pdf''],
                  json_validations = Some [(''obj.json'', [''a''])]\<rparr>)]\<rparr>"

definition five_case :: case_spec where
  "five_case =
     \<lparr>pipeline = ''ok.yaml'', working_dir = None, expected_outputs = None,
      json_validations = Some [(''five.json'', [''a''])]\<rparr>"

definition json_config :: suite_config where
  "json_config =
     \<lparr>cfg_setup = None,
      cfg_tests = Some
        [(''first'', \<lparr>pipeline = ''ok.yaml'', working_dir = None,
                      expected_outputs = None, json_validations = None\<rparr>),
         (''t'', five_case)]\<rparr>"

definition demo_fs :: filesystem where
  "demo_fs =
     \<lparr>path_exists = (\<lambda>p. p \<in> set [''test-config.yaml'', ''json-config.yaml'', ''./a.pdf'',
                                      ''./c.pdf'', ''obj.json'', ''list.json'', ''str.json'',
                                      ''five.json'', ''bad.json'']),
      json_load = (\<lambda>p. if p = ''obj.json'' then Loaded (JObj [(''a'', JInt 1), (''b'', JInt 2)])
                        else if p = ''list.json'' then Loaded (JArr [JStr ''a''])
                        else if p = ''str.json'' then Loaded (JStr ''banana'')
                        else if p = ''five.json'' then Loaded (JInt 5)
                        else JSONDecodeError ''Expecting value''),
      yaml_load = (\<lambda>p. if p = ''test-config.yaml'' then Inr demo_config
                        else if p = ''json-config.yaml'' then Inr json_config
                        else Inl (YAMLError p))\<rparr>"

definition demo_ext :: externals where
  "demo_ext =
     \<lparr>path_join = (\<lambda>wd p. wd @ ''/'' @ p),
      subprocess_run = (\<lambda>cmd wd t fs.
         if last cmd = ''fail.yaml'' then (Completed 1 [] ''boom'', 2, fs)
         else if last cmd = ''slow.yaml'' then (TimeoutExpired, t, fs)
         else (Completed 0 ''done'' [], 1, fs)),
      os_system = (\<lambda>cmd fs. fs),
      time_now = 1000\<rparr>"

definition demo_validator :: pipeline_validator where
  "demo_validator = init ''./cli/dist/index.js''"

lemmas demo_defs = demo_fs_def demo_ext_def demo_config_def json_config_def five_case_def
  demo_validator_def init_def

lemmas eval_defs = main_def run_test_suite_def get_tests_def run_setup_def test_pipeline_def
  run_pipeline_def get_working_dir_def validate_outputs_def validate_json_output_def
  generate_summary_def count_passed_def generate_report_def

section \<open>Facts about the loops\<close>

lemma validate_outputs_loop_filter:
  "validate_outputs_loop ext fs wd ps created missing =
     (created @ filter (\<lambda>p. path_exists fs (path_join ext wd p)) ps,
      missing @ filter (\<lambda>p. \<not> path_exists fs (path_join ext wd p)) ps)"
  by (induction ps arbitrary: created missing) simp_all

lemma mset_filter_split: "mset (filter P xs) + mset (filter (\<lambda>x. \<not> P x) xs) = mset xs"
  by (induction xs) simp_all

lemma missing_fields_loop_dict:
  "missing_fields_loop (JObj kvs) req missing =
     Inr (missing @ filter (\<lambda>f. f \<notin> fst ` set kvs) req)"
  by (induction req arbitrary: missing) simp_all

lemma sum_ones_length: "sum_list (map (\<lambda>r. 1) xs) = int (length xs)"
  by (induction xs) simp_all

lemma count_passed_length:
  "count_passed rs = int (length (filter (\<lambda>r. success (cr_execution r)) rs))"
  by (simp add: count_passed_def sum_ones_length)

lemma length_filter_compl:
  "int (length (filter (\<lambda>x. \<not> P x) xs)) = int (length xs) - int (length (filter P xs))"
  by (induction xs) simp_all

text \<open>On a JSON object the required fields are checked against the top-level keys, in the
  order of \<open>required_fields\<close>.\<close>

lemma validate_json_output_mapping:
  assumes "path_exists fs json_path" and "json_load fs json_path = Loaded (JObj kvs)"
  shows "validate_json_output fs json_path required_fields =
           Inr (JsonChecked (filter (\<lambda>f. f \<notin> fst ` set kvs) required_fields = [])
                  (filter (\<lambda>f. f \<notin> fst ` set kvs) required_fields) (map fst kvs) ''dict'')"
  using assms by (simp add: validate_json_output_def missing_fields_loop_dict)

text \<open>An exception of \<^verbatim>\<open>open\<close> or of the decoder other than \<^verbatim>\<open>JSONDecodeError\<close> leaves
  \<^verbatim>\<open>validate_json_output\<close>.\<close>

lemma validate_json_output_load_raises:
  assumes "path_exists fs json_path" and "json_load fs json_path = LoadRaised e"
  shows "validate_json_output fs json_path required_fields = Inl e"
  using assms by (simp add: validate_json_output_def)

text \<open>The summary of \<^verbatim>\<open>generate_report\<close> counts the stored results the same way.\<close>

lemma generate_report_summary:
  "summary (snd (generate_report ext self output_path)) =
     \<lparr>total_count = int (length (test_results self)),
      passed = count_passed (test_results self),
      failed = int (length (test_results self)) - count_passed (test_results self)\<rparr>"
  by (simp add: generate_report_def count_passed_length sum_ones_length length_filter_compl)

text \<open>Where the loop of \<^verbatim>\<open>run_test_suite\<close> runs to its end, it has appended one result per
  entry of \<^verbatim>\<open>tests\<close>, in the order of the entries.\<close>

lemma run_tests_loop_acc:
  "run_tests_loop ext self tests acc fs = Inr (rs, fs') \<Longrightarrow>
     \<exists>new. rs = acc @ new \<and> map cr_name new = map fst tests
       \<and> map cr_pipeline new = map (\<lambda>t. pipeline (snd t)) tests"
proof (induction tests arbitrary: acc fs)
  case Nil
  then show ?case by simp
next
  case (Cons t tests)
  obtain n c where t: "t = (n, c)" by (cases t)
  from Cons.prems t obtain r fs1 where
    step: "test_pipeline ext self n c fs = Inr (r, fs1)" and
    rest: "run_tests_loop ext self tests (acc @ [r]) fs1 = Inr (rs, fs')"
    by (auto split: sum.splits)
  from Cons.IH [OF rest] obtain new where
    new: "rs = (acc @ [r]) @ new" "map cr_name new = map fst tests"
      "map cr_pipeline new = map (\<lambda>t. pipeline (snd t)) tests"
    by blast
  have nm: "cr_name r = n \<and> cr_pipeline r = pipeline c"
    using step
    by (auto simp: test_pipeline_def Let_def
        split: prod.splits if_splits option.splits sum.splits)
  show ?case
    by (rule exI [of _ "r # new"]) (simp add: new t nm)
qed

lemma run_tests_loop_order:
  assumes "run_tests_loop ext self tests [] fs = Inr (rs, fs')"
  shows "length rs = length tests \<and> map cr_name rs = map fst tests
       \<and> map cr_pipeline rs = map (\<lambda>t. pipeline (snd t)) tests"
proof -
  from run_tests_loop_acc [OF assms] have
    "map cr_name rs = map fst tests \<and> map cr_pipeline rs = map (\<lambda>t. pipeline (snd t)) tests"
    by simp
  then show ?thesis by (metis length_map)
qed

text \<open>Whatever the suite, the report \<^verbatim>\<open>main\<close> writes holds no result: \<^verbatim>\<open>generate_report\<close>
  reads \<^verbatim>\<open>self.test_results\<close>, which nothing appends to.\<close>

lemma main_report_empty:
  "main ext argv fs = Inr out \<Longrightarrow>
     results (snd (written out)) = []
     \<and> summary (snd (written out)) = \<lparr>total_count = 0, passed = 0, failed = 0\<rparr>"
  by (auto simp: main_def Let_def generate_report_def init_def split: sum.splits)

section \<open>The claims\<close>

text \<open>
  C1 (report contents). The claim: the report written by \<^verbatim>\<open>generate_report\<close> contains every
  result of the run, so that after a run of n cases its results array has n entries. On
  the end-to-end suite the loop of \<^verbatim>\<open>run_test_suite\<close> produces the two results \<open>b\<close> and
  \<open>a\<close>, yet the report \<^verbatim>\<open>main\<close> writes has an empty results array and a summary of 0/0/0:
  the results stay in the local \<^verbatim>\<open>all_results\<close> and never reach \<^verbatim>\<open>self.test_results\<close>.
\<close>

theorem report_omits_results:
  "map cr_name (fst (projr (run_tests_loop demo_ext (init ''./cli/dist/index.js'')
       (get_tests demo_config) [] (run_setup demo_ext demo_config demo_fs)))) = [''b'', ''a'']
   \<and> main demo_ext [''validate-pipelines.py''] demo_fs =
       Inr \<lparr>written = (''test-results.json'',
               \<lparr>timestamp = 1000, rp_cli_path = ''./cli/dist/index.js'', results = [],
                summary = \<lparr>total_count = 0, passed = 0, failed = 0\<rparr>\<rparr>),
            exit_status = 1\<rparr>"
  by (simp add: demo_defs eval_defs)

text \<open>
  C2 (artifact check). For every list of expected paths and every file system,
  \<^verbatim>\<open>validate_outputs\<close> returns as \<open>files_created\<close> the paths that exist and as
  \<open>files_missing\<close> those that do not, each in the order of the input; together they are the
  input list; \<open>success\<close> holds iff \<open>files_missing\<close> is empty; on the empty list it succeeds
  with both lists empty.
\<close>

theorem validate_outputs_partition:
  "files_created (validate_outputs ext fs expected wd) =
     filter (\<lambda>p. path_exists fs (path_join ext wd p)) expected
   \<and> files_missing (validate_outputs ext fs expected wd) =
     filter (\<lambda>p. \<not> path_exists fs (path_join ext wd p)) expected
   \<and> mset (files_created (validate_outputs ext fs expected wd))
       + mset (files_missing (validate_outputs ext fs expected wd)) = mset expected
   \<and> (ov_success (validate_outputs ext fs expected wd)
        \<longleftrightarrow> files_missing (validate_outputs ext fs expected wd) = [])
   \<and> ov_success (validate_outputs ext fs [] wd)
   \<and> files_created (validate_outputs ext fs [] wd) = []
   \<and> files_missing (validate_outputs ext fs [] wd) = []"
  by (simp add: validate_outputs_def validate_outputs_loop_filter mset_filter_split)

theorem validate_outputs_partition_witness:
  "files_created (validate_outputs demo_ext demo_fs [''a.pdf'', ''b.pdf'', ''c.pdf''] ''.'')
     = [''a.pdf'', ''c.pdf'']
   \<and> files_missing (validate_outputs demo_ext demo_fs [''a.pdf'', ''b.pdf'', ''c.pdf''] ''.'')
     = [''b.pdf'']
   \<and> \<not> ov_success (validate_outputs demo_ext demo_fs [''a.pdf'', ''b.pdf'', ''c.pdf''] ''.'')"
  using validate_outputs_partition [of demo_ext demo_fs "[''a.pdf'', ''b.pdf'', ''c.pdf'']" "''.''"]
  by (simp add: demo_ext_def demo_fs_def)

text \<open>
  C3 (JSON value that is not a mapping). The claim: for a parsed value that is not a mapping
  every required field is reported missing and \<open>success\<close> is false. The membership test
  \<^verbatim>\<open>field not in data\<close> is not guarded by \<^verbatim>\<open>isinstance(data, dict)\<close> as \<open>data_keys\<close> is: on the
  list \<^verbatim>\<open>["a"]\<close> the required field \<open>a\<close> is found and the check succeeds, on the string
  \<^verbatim>\<open>"banana"\<close> the field \<open>nan\<close> is found as a substring, and on the number 5 the test raises
  \<^verbatim>\<open>TypeError\<close>.
\<close>

theorem validate_json_output_non_mapping:
  "validate_json_output demo_fs ''list.json'' [''a''] = Inr (JsonChecked True [] [] ''list'')
   \<and> validate_json_output demo_fs ''str.json'' [''nan'', ''x'']
       = Inr (JsonChecked False [''x''] [] ''str'')
   \<and> validate_json_output demo_fs ''five.json'' [''a''] = Inl (TypeError ''int'')"
  by (simp add: demo_fs_def validate_json_output_def)

text \<open>
  C4 (missing JSON file). For every path that does not exist, \<^verbatim>\<open>validate_json_output\<close>
  returns the failure \<^verbatim>\<open>JSON file not found: <path>\<close>, a dict without \<open>missing_fields\<close>; for
  an existing file that fails to parse it returns \<^verbatim>\<open>Invalid JSON: <detail>\<close>, and the two
  causes are never the same text.
\<close>

theorem validate_json_output_file_not_found:
  assumes "\<not> path_exists fs json_path"
    and "path_exists fs' json_path'"
    and "json_load fs' json_path' = JSONDecodeError detail"
  shows "validate_json_output fs json_path required_fields
           = Inr (JsonFailure (''JSON file not found: '' @ json_path))
       \<and> get_missing_fields (JsonFailure (''JSON file not found: '' @ json_path)) = None
       \<and> validate_json_output fs' json_path' required_fields'
           = Inr (JsonFailure (''Invalid JSON: '' @ detail))
       \<and> ''JSON file not found: '' @ json_path \<noteq> ''Invalid JSON: '' @ detail"
  using assms by (simp add: validate_json_output_def)

theorem validate_json_output_file_not_found_witness:
  "validate_json_output demo_fs ''gone.json'' [''a'']
       = Inr (JsonFailure ''JSON file not found: gone.json'')
   \<and> validate_json_output demo_fs ''bad.json'' [''a'']
       = Inr (JsonFailure ''Invalid JSON: Expecting value'')"
proof -
  have a: "\<not> path_exists demo_fs ''gone.json''" by (simp add: demo_fs_def)
  have b: "path_exists demo_fs ''bad.json''" by (simp add: demo_fs_def)
  have c: "json_load demo_fs ''bad.json'' = JSONDecodeError ''Expecting value''"
    by (simp add: demo_fs_def)
  show ?thesis
    using validate_json_output_file_not_found [OF a b c, of "[''a'']" "[''a'']"] by simp
qed

text \<open>
  C5 (timeout). Whenever \<^verbatim>\<open>subprocess.run\<close>, started with the time limit 60, ends in
  \<^verbatim>\<open>TimeoutExpired\<close>, \<^verbatim>\<open>run_pipeline\<close> returns \<open>success\<close> false, exit code -1, empty stdout,
  the fixed stderr message and a duration of 60, the time limit.
\<close>

theorem run_pipeline_timeout:
  assumes "subprocess_run ext [''node'', cli_path self, ''run'', pipeline_path] wd 60 fs
             = (TimeoutExpired, elapsed, fs')"
  shows "fst (run_pipeline ext self pipeline_path wd fs) =
           \<lparr>success = False, stdout = [],
            stderr = ''Pipeline execution timed out after 60 seconds'',
            duration = 60, exit_code = - 1\<rparr>"
  using assms by (simp add: run_pipeline_def)

theorem run_pipeline_timeout_witness:
  "fst (run_pipeline demo_ext demo_validator ''slow.yaml'' ''.'' demo_fs) =
           \<lparr>success = False, stdout = [],
            stderr = ''Pipeline execution timed out after 60 seconds'',
            duration = 60, exit_code = - 1\<rparr>"
proof -
  have a: "subprocess_run demo_ext [''node'', cli_path demo_validator, ''run'', ''slow.yaml'']
             ''.'' 60 demo_fs = (TimeoutExpired, 60, demo_fs)"
    by (simp add: demo_ext_def)
  show ?thesis using run_pipeline_timeout [OF a] by simp
qed

text \<open>
  C6 (which validations a result carries). Every result \<^verbatim>\<open>test_pipeline\<close> returns holds the
  execution record of \<^verbatim>\<open>run_pipeline\<close>, has \<open>output_validation\<close> iff the execution succeeded
  and the case declares \<open>expected_outputs\<close>, and has \<open>json_validations\<close> iff the execution
  succeeded and the case declares \<open>json_validations\<close>. When the execution fails, or the case
  declares neither, \<^verbatim>\<open>test_pipeline\<close> returns the record with the execution alone.
\<close>

theorem test_pipeline_validations:
  "(\<forall>r fs'. test_pipeline ext self pipeline_name config fs = Inr (r, fs') \<longrightarrow>
       cr_execution r = fst (run_pipeline ext self (pipeline config) (get_working_dir config) fs)
     \<and> (cr_output_validation r \<noteq> None
          \<longleftrightarrow> success (cr_execution r) \<and> expected_outputs config \<noteq> None)
     \<and> (cr_json_validations r \<noteq> None
          \<longleftrightarrow> success (cr_execution r) \<and> json_validations config \<noteq> None))
   \<and> (\<not> success (fst (run_pipeline ext self (pipeline config) (get_working_dir config) fs))
        \<or> (expected_outputs config = None \<and> json_validations config = None) \<longrightarrow>
       test_pipeline ext self pipeline_name config fs =
         Inr (\<lparr>cr_name = pipeline_name, cr_pipeline = pipeline config,
               cr_execution =
                 fst (run_pipeline ext self (pipeline config) (get_working_dir config) fs),
               cr_output_validation = None, cr_json_validations = None\<rparr>,
              snd (run_pipeline ext self (pipeline config) (get_working_dir config) fs)))"
  by (auto simp: test_pipeline_def Let_def split: prod.splits option.splits sum.splits if_splits)

theorem test_pipeline_validations_witness:
  "test_pipeline demo_ext demo_validator ''a''
      \<lparr>pipeline = ''fail.yaml'', working_dir = Some ''work'',
       expected_outputs = Some [''b.pdf''],
       json_validations = Some [(''obj.json'', [''a''])]\<rparr> demo_fs =
     Inr (\<lparr>cr_name = ''a'', cr_pipeline = ''fail.yaml'',
           cr_execution = \<lparr>success = False, stdout = [], stderr = ''boom'',
                           duration = 2, exit_code = 1\<rparr>,
           cr_output_validation = None, cr_json_validations = None\<rparr>, demo_fs)"
  using test_pipeline_validations [of demo_ext demo_validator "''a''"
      "\<lparr>pipeline = ''fail.yaml'', working_dir = Some ''work'',
        expected_outputs = Some [''b.pdf''],
        json_validations = Some [(''obj.json'', [''a''])]\<rparr>" demo_fs]
  by (simp add: demo_defs run_pipeline_def get_working_dir_def)

text \<open>
  C7 (tally). For every list of results, the summary step of \<^verbatim>\<open>run_test_suite\<close> has total
  the number of results, passed the number of results whose execution succeeded (the
  validation fields play no part), failed total minus passed, and returns true iff passed
  equals total; \<^verbatim>\<open>generate_report\<close> counts its list the same way. When the configuration
  loads and the loop yields the results, that boolean is what \<^verbatim>\<open>run_test_suite\<close> returns, and
  \<^verbatim>\<open>main\<close> exits with 0 if it is true and with 1 otherwise.
\<close>

theorem generate_summary_counts:
  "total_count (fst (generate_summary all_results)) = int (length all_results)
   \<and> passed (fst (generate_summary all_results))
       = int (length (filter (\<lambda>r. success (cr_execution r)) all_results))
   \<and> failed (fst (generate_summary all_results))
       = total_count (fst (generate_summary all_results))
         - passed (fst (generate_summary all_results))
   \<and> (snd (generate_summary all_results)
        \<longleftrightarrow> passed (fst (generate_summary all_results))
            = total_count (fst (generate_summary all_results)))
   \<and> generate_summary
        (map (\<lambda>r. r\<lparr>cr_output_validation := ov r, cr_json_validations := jv r\<rparr>) all_results)
       = generate_summary all_results
   \<and> summary (snd (generate_report ext (self\<lparr>test_results := all_results\<rparr>) output_path))
       = fst (generate_summary all_results)
   \<and> (path_exists fs config_path \<and> yaml_load fs config_path = Inr config
        \<and> run_tests_loop ext (init ''./cli/dist/index.js'') (get_tests config) []
              (run_setup ext config fs) = Inr (all_results, fs') \<longrightarrow>
      run_test_suite ext (init ''./cli/dist/index.js'') config_path fs
        = Inr (snd (generate_summary all_results), fs')
      \<and> main ext [prog, config_path] fs =
          Inr \<lparr>written = generate_report ext (init ''./cli/dist/index.js'') ''test-results.json'',
               exit_status =
                 (if passed (fst (generate_summary all_results))
                     = total_count (fst (generate_summary all_results)) then 0 else 1)\<rparr>)"
proof -
  have cnt: "total_count (fst (generate_summary all_results)) = int (length all_results)
       \<and> passed (fst (generate_summary all_results))
           = int (length (filter (\<lambda>r. success (cr_execution r)) all_results))
       \<and> failed (fst (generate_summary all_results))
           = total_count (fst (generate_summary all_results))
             - passed (fst (generate_summary all_results))
       \<and> (snd (generate_summary all_results)
            \<longleftrightarrow> passed (fst (generate_summary all_results))
                = total_count (fst (generate_summary all_results)))"
    by (simp add: generate_summary_def count_passed_length Let_def)
  have ind: "generate_summary
        (map (\<lambda>r. r\<lparr>cr_output_validation := ov r, cr_json_validations := jv r\<rparr>) all_results)
       = generate_summary all_results"
    by (simp add: generate_summary_def count_passed_length filter_map comp_def)
  have rep: "summary (snd (generate_report ext (self\<lparr>test_results := all_results\<rparr>) output_path))
       = fst (generate_summary all_results)"
    by (simp add: generate_report_summary generate_summary_def Let_def)
  have run: "path_exists fs config_path \<and> yaml_load fs config_path = Inr config
        \<and> run_tests_loop ext (init ''./cli/dist/index.js'') (get_tests config) []
              (run_setup ext config fs) = Inr (all_results, fs') \<longrightarrow>
      run_test_suite ext (init ''./cli/dist/index.js'') config_path fs
        = Inr (snd (generate_summary all_results), fs')
      \<and> main ext [prog, config_path] fs =
          Inr \<lparr>written = generate_report ext (init ''./cli/dist/index.js'') ''test-results.json'',
               exit_status =
                 (if passed (fst (generate_summary all_results))
                     = total_count (fst (generate_summary all_results)) then 0 else 1)\<rparr>"
    using cnt by (simp add: main_def run_test_suite_def Let_def)
  show ?thesis using cnt ind rep run by blast
qed

theorem generate_summary_counts_witness:
  "fst (generate_summary
     (fst (projr (run_tests_loop demo_ext demo_validator (get_tests demo_config) []
        (run_setup demo_ext demo_config demo_fs)))))
     = \<lparr>total_count = 2, passed = 1, failed = 1\<rparr>
   \<and> run_test_suite demo_ext demo_validator ''test-config.yaml'' demo_fs = Inr (False, demo_fs)
   \<and> exit_status (projr (main demo_ext [''validate-pipelines.py'', ''test-config.yaml''] demo_fs))
       = 1"
proof -
  let ?b = "\<lparr>cr_name = ''b'', cr_pipeline = ''ok.yaml'',
           cr_execution = \<lparr>success = True, stdout = ''done'', stderr = [],
                           duration = 1, exit_code = 0\<rparr>,
           cr_output_validation = Some \<lparr>files_created = [''a.pdf''], files_missing = [],
              total_expected = 1, ov_success = True, created_count = 1, missing_count = 0\<rparr>,
           cr_json_validations = None\<rparr>"
  let ?a = "\<lparr>cr_name = ''a'', cr_pipeline = ''fail.yaml'',
           cr_execution = \<lparr>success = False, stdout = [], stderr = ''boom'',
                           duration = 2, exit_code = 1\<rparr>,
           cr_output_validation = None, cr_json_validations = None\<rparr>"
  have a: "path_exists demo_fs ''test-config.yaml''" by (simp add: demo_fs_def)
  have b: "yaml_load demo_fs ''test-config.yaml'' = Inr demo_config" by (simp add: demo_fs_def)
  have c: "run_tests_loop demo_ext (init ''./cli/dist/index.js'') (get_tests demo_config) []
        (run_setup demo_ext demo_config demo_fs) = Inr ([?b, ?a], demo_fs)"
    by (simp add: demo_defs eval_defs)
  have d: "demo_validator = init ''./cli/dist/index.js''" by (simp add: demo_validator_def)
  show ?thesis
    using generate_summary_counts [where all_results = "[?b, ?a]" and fs = demo_fs
        and config_path = "''test-config.yaml''" and config = demo_config and ext = demo_ext
        and fs' = demo_fs and prog = "''validate-pipelines.py''"] a b c
    by (simp add: d)
qed

text \<open>
  C8 (one result per case, in order). The claim: for every suite, \<^verbatim>\<open>run_test_suite\<close> yields
  exactly one result per entry of \<^verbatim>\<open>tests\<close>, in insertion order. On \<open>json_config\<close>, whose
  second case checks a JSON artifact holding the number 5, the loop is left by a
  \<^verbatim>\<open>TypeError\<close>: no list of results exists, not even the result of the first case, and
  \<^verbatim>\<open>run_test_suite\<close> returns nothing. (Where the loop runs to its end the order and the
  count are as claimed: \<open>run_tests_loop_order\<close>.)
\<close>

theorem run_tests_loop_aborts:
  "run_tests_loop demo_ext demo_validator (get_tests json_config) []
       (run_setup demo_ext json_config demo_fs) = Inl (TypeError ''int'')
   \<and> run_test_suite demo_ext demo_validator ''json-config.yaml'' demo_fs
       = Inl (TypeError ''int'')"
  by (simp add: demo_defs eval_defs)

text \<open>
  C9 (errors of a case are data). The claim: \<^verbatim>\<open>test_pipeline\<close> raises for no condition of
  the file system or of the child process. For a case that exits with status 0 and whose
  JSON artifact holds the number 5, \<^verbatim>\<open>validate_json_output\<close> raises \<^verbatim>\<open>TypeError\<close>, which
  only \<^verbatim>\<open>except json.JSONDecodeError\<close> stands against; it leaves \<^verbatim>\<open>test_pipeline\<close> and ends
  \<^verbatim>\<open>main\<close> before any report is written.
\<close>

theorem test_pipeline_raises:
  "test_pipeline demo_ext demo_validator ''t'' five_case demo_fs = Inl (TypeError ''int'')
   \<and> main demo_ext [''validate-pipelines.py'', ''json-config.yaml''] demo_fs
       = Inl (TypeError ''int'')"
  by (simp add: demo_defs eval_defs)

text \<open>
  C10 (missing configuration). When the configuration path does not exist,
  \<^verbatim>\<open>run_test_suite\<close> returns false and leaves the file system as it was, and \<^verbatim>\<open>main\<close> still
  writes \<^verbatim>\<open>test-results.json\<close>, with an empty results array and total, passed and failed
  all 0, and exits with status 1.
\<close>

theorem main_missing_config:
  assumes "\<not> path_exists fs (if length argv > 1 then argv ! 1 else ''test-config.yaml'')"
  shows "run_test_suite ext (init ''./cli/dist/index.js'')
           (if length argv > 1 then argv ! 1 else ''test-config.yaml'') fs = Inr (False, fs)
       \<and> main ext argv fs =
           Inr \<lparr>written = (''test-results.json'',
                   \<lparr>timestamp = time_now ext, rp_cli_path = ''./cli/dist/index.js'',
                    results = [],
                    summary = \<lparr>total_count = 0, passed = 0, failed = 0\<rparr>\<rparr>),
                exit_status = 1\<rparr>"
  using assms by (simp add: main_def run_test_suite_def generate_report_def init_def Let_def)

theorem main_missing_config_witness:
  "main demo_ext [''validate-pipelines.py'', ''missing.yaml''] demo_fs =
           Inr \<lparr>written = (''test-results.json'',
                   \<lparr>timestamp = 1000, rp_cli_path = ''./cli/dist/index.js'',
                    results = [],
                    summary = \<lparr>total_count = 0, passed = 0, failed = 0\<rparr>\<rparr>),
                exit_status = 1\<rparr>"
proof -
  have a: "\<not> path_exists demo_fs
    (if length [''validate-pipelines.py'', ''missing.yaml''] > 1
     then [''validate-pipelines.py'', ''missing.yaml''] ! 1 else ''test-config.yaml'')"
    by (simp add: demo_fs_def)
  show ?thesis using main_missing_config [OF a, of demo_ext] by (simp add: demo_ext_def)
qed

end
